theory Spec2Isabelle
  imports Complex_Main "HOL-Library.AList"
begin

section \<open>Python values and string helpers\<close>

text \<open>
  A string is a list of 8-bit characters, read as the code points 0 to 255. The helpers
  below follow, on these code points, the Python built-ins the application calls:
  \<open>str.lower\<close>, \<open>str.upper\<close>, \<open>str.strip\<close>, \<open>str.isdigit\<close> and \<open>int\<close>.
\<close>

definition py_lower_char :: "char \<Rightarrow> char" where
  "py_lower_char c =
     (let n = (of_char c :: nat) in
      if (65 \<le> n \<and> n \<le> 90) \<or> (192 \<le> n \<and> n \<le> 222 \<and> n \<noteq> 215) then char_of (n + 32) else c)"

text \<open>
  The upper case of the code points 181, 223 and 255 lies outside the 8-bit range; they
  are left as they are. \<open>ajouter_participant\<close> takes the upper case of a pseudo that has
  passed its allow-list only, which is made of the letters a to z in either case.
\<close>

definition py_upper_char :: "char \<Rightarrow> char" where
  "py_upper_char c =
     (let n = (of_char c :: nat) in
      if (97 \<le> n \<and> n \<le> 122) \<or> (224 \<le> n \<and> n \<le> 254 \<and> n \<noteq> 247) then char_of (n - 32) else c)"

definition py_lower :: "string \<Rightarrow> string" where
  "py_lower s = map py_lower_char s"

definition py_upper :: "string \<Rightarrow> string" where
  "py_upper s = map py_upper_char s"

text \<open>The white space \<open>str.strip\<close> removes.\<close>

definition est_espace :: "char \<Rightarrow> bool" where
  "est_espace c =
     (let n = (of_char c :: nat) in
      (9 \<le> n \<and> n \<le> 13) \<or> (28 \<le> n \<and> n \<le> 32) \<or> n = 133 \<or> n = 160)"

definition py_strip :: "string \<Rightarrow> string" where
  "py_strip s = rev (dropWhile est_espace (rev (dropWhile est_espace s)))"

text \<open>The white space \<open>int\<close> skips around a literal: the code points 28 to 31 are not in it.\<close>

definition est_espace_int :: "char \<Rightarrow> bool" where
  "est_espace_int c =
     (let n = (of_char c :: nat) in (9 \<le> n \<and> n \<le> 13) \<or> n = 32 \<or> n = 133 \<or> n = 160)"

text \<open>The decimal digits 0 to 9, the only digits \<open>int\<close> reads.\<close>

definition est_chiffre :: "char \<Rightarrow> bool" where
  "est_chiffre c = (let n = (of_char c :: nat) in 48 \<le> n \<and> n \<le> 57)"

definition val_chiffre :: "char \<Rightarrow> nat" where
  "val_chiffre c = (of_char c :: nat) - 48"

text \<open>
  \<open>str.isdigit\<close> also holds of the superscript digits (code points 178, 179 and 185),
  which \<open>int\<close> refuses.
\<close>

definition est_digit :: "char \<Rightarrow> bool" where
  "est_digit c = (let n = (of_char c :: nat) in (48 \<le> n \<and> n \<le> 57) \<or> n = 178 \<or> n = 179 \<or> n = 185)"

definition py_isdigit :: "string \<Rightarrow> bool" where
  "py_isdigit s = (s \<noteq> [] \<and> list_all est_digit s)"

text \<open>
  The body of a decimal literal as \<open>int\<close> accepts it: it starts and ends with a digit,
  and a single underscore may stand between two digits.
\<close>

fun litteral_valide :: "string \<Rightarrow> bool" where
  "litteral_valide [] = False"
| "litteral_valide [c] = est_chiffre c"
| "litteral_valide (c # d # cs) =
     (est_chiffre c \<and> (if d = CHR ''_'' then litteral_valide cs else litteral_valide (d # cs)))"

definition valeur_chiffres :: "string \<Rightarrow> nat" where
  "valeur_chiffres ds = foldl (\<lambda>acc c. acc * 10 + val_chiffre c) 0 ds"

text \<open>
  The interpreter refuses a decimal literal of more digits than
  \<open>sys.get_int_max_str_digits()\<close>, 4300 unless configured otherwise (CPython 3.11).
\<close>

definition INT_MAX_STR_DIGITS :: nat where
  "INT_MAX_STR_DIGITS = 4300"

text \<open>
  \<open>int\<close> on a string: white space skipped at both ends, an optional sign, the body;
  \<open>None\<close> stands for the \<open>ValueError\<close> raised on an invalid literal or on too many
  digits.
\<close>

definition lire_entier :: "string \<Rightarrow> int option" where
  "lire_entier s =
     (case dropWhile est_espace_int s of
        [] \<Rightarrow> None
      | c # cs \<Rightarrow>
          let corps = rev (dropWhile est_espace_int
                             (rev (if c = CHR ''-'' \<or> c = CHR ''+'' then cs else c # cs)));
              chiffres = filter est_chiffre corps
          in if \<not> litteral_valide corps \<or> INT_MAX_STR_DIGITS < length chiffres then None
             else Some ((if c = CHR ''-'' then - 1 else 1) * int (valeur_chiffres chiffres)))"

text \<open>
  A vote or a priority is whatever the caller passes: the request handlers pass form
  strings or parsed integers, the backlog file holds either.
\<close>

datatype valeur = Entier int | Chaine string

datatype erreur =
    PseudoVide
  | NonAutorise string
  | PseudoExiste string
  | ProductOwnerExiste
  | ScrumMasterExiste
  | FonctionnaliteNonTrouvee
  | DejaVote string
  | LitteralInvalide string
  | StatisticsError
  | TypeErrorNone
  | NameError string
  | OverflowError
  | ZeroDivisionError

text \<open>
  The first seven kinds are the \<open>ValueError\<close>s the manager raises with a message;
  \<open>LitteralInvalide\<close> is the \<open>ValueError\<close> of \<open>int\<close> and \<open>StatisticsError\<close> is a
  subclass of \<open>ValueError\<close>. The last four kinds are not \<open>ValueError\<close>s: the clause
  \<open>except ValueError\<close> of a request handler lets them through.
\<close>

fun est_ValueError :: "erreur \<Rightarrow> bool" where
  "est_ValueError TypeErrorNone = False"
| "est_ValueError (NameError n) = False"
| "est_ValueError OverflowError = False"
| "est_ValueError ZeroDivisionError = False"
| "est_ValueError e = True"

fun py_int :: "valeur \<Rightarrow> erreur + int" where
  "py_int (Entier n) = Inr n"
| "py_int (Chaine s) = (case lire_entier s of None \<Rightarrow> Inl (LitteralInvalide s) | Some n \<Rightarrow> Inr n)"

text \<open>
  The division \<open>a / b\<close> of two integers. Python rounds the quotient to the nearest
  double and raises \<open>OverflowError\<close> when it is too large for one; the model keeps the
  quotient exact.
\<close>

definition py_truediv :: "int \<Rightarrow> int \<Rightarrow> erreur + rat" where
  "py_truediv a b =
     (if b = 0 then Inl ZeroDivisionError
      else if 2 ^ 1024 - 2 ^ 970 \<le> \<bar>of_int a / of_int b :: rat\<bar> then Inl OverflowError
      else Inr (of_int a / of_int b))"

section \<open>Data model\<close>

text \<open>
  Modelled from the spec: the class \<open>Fonctionnalite\<close> of \<open>models/fonctionnalite.py\<close>
  is a plain object with the attributes its constructor is given in
  \<open>ajout_fonctionnalite\<close>: id, nom, description, priorite, difficulte, statut,
  mode_de_vote, participants.
\<close>

record fonctionnalite =
  id_f :: int
  nom :: string
  description :: string
  priorite :: valeur
  difficulte :: "valeur option"
  statut :: string
  mode_de_vote :: string
  participants_f :: "string list"

record participant =
  pseudo :: string
  fonction :: string
  avatar :: string
  vote :: "valeur option"
  session_id :: string

record indicateurs =
  reunion_active :: bool
  vote_commence :: bool
  votes_reveles :: bool
  tout_le_monde_a_vote_ind :: bool
  fonctionnalite_approuvee :: bool

record etat =
  participants :: "participant list"
  mapper_session :: "(string \<times> string) list"
  id_fonctionnalite :: "int option"
  indicateurs :: indicateurs

record app_manager =
  backlog :: "fonctionnalite list"
  state :: etat

text \<open>
  The names \<open>from constantes import *\<close> brings into the modules. The file
  \<open>constantes.py\<close> is a parameter of the model; \<open>exporte_statistics\<close> says whether it
  binds the name \<open>statistics\<close>, which \<open>models/app_manager.py\<close> uses and does not
  import itself.
\<close>

record constantes =
  SEUIL_APPROBATION_MOYENNE :: rat
  SEUIL_APPROBATION_MEDIANE :: rat
  PRIORITE_MIN :: int
  PRIORITE_MAX :: int
  DIFFICULTE_MIN :: int
  DIFFICULTE_MAX :: int
  exporte_statistics :: bool

definition etat_initial :: etat where
  "etat_initial =
     \<lparr> participants = [], mapper_session = [], id_fonctionnalite = None,
       indicateurs = \<lparr> reunion_active = False, vote_commence = False, votes_reveles = False,
                       tout_le_monde_a_vote_ind = False, fonctionnalite_approuvee = False \<rparr> \<rparr>"

section \<open>Roster operations\<close>

definition PARTICIPANTS_AUTORISES :: "string list" where
  "PARTICIPANTS_AUTORISES = [''po'', ''sm'', ''lina'', ''hugo'']"

text \<open>
  Every operation takes the manager and returns the outcome of the call (an error raised
  or the value returned) together with the manager as the call leaves it.
\<close>

definition ajouter_participant ::
  "string \<Rightarrow> string \<Rightarrow> app_manager \<Rightarrow> (erreur + unit) \<times> app_manager" where
  "ajouter_participant ps sid a =
     (if ps = [] then (Inl PseudoVide, a)
      else if py_lower ps \<notin> set PARTICIPANTS_AUTORISES then (Inl (NonAutorise ps), a)
      else if ps \<in> set (map pseudo (participants (state a))) then (Inl (PseudoExiste ps), a)
      else if py_lower ps = ''po''
              \<and> list_ex (\<lambda>p. fonction p = ''Product Owner'') (participants (state a))
        then (Inl ProductOwnerExiste, a)
      else if py_lower ps \<noteq> ''po'' \<and> py_lower ps = ''sm''
              \<and> list_ex (\<lambda>p. fonction p = ''Scrum Master'') (participants (state a))
        then (Inl ScrumMasterExiste, a)
      else
        (Inr (),
         a\<lparr>state := (state a)
            \<lparr>participants := participants (state a) @
                [\<lparr> pseudo = ps,
                   fonction = (if py_lower ps = ''po'' then ''Product Owner''
                               else if py_lower ps = ''sm'' then ''Scrum Master''
                               else ''Votant''),
                   avatar = ''https://placehold.co/60x60/'' @ py_upper (take 2 ps),
                   vote = None,
                   session_id = sid \<rparr>],
             mapper_session := AList.update ps sid (mapper_session (state a))\<rparr>\<rparr>))"

definition logout_participant :: "string \<Rightarrow> app_manager \<Rightarrow> app_manager" where
  "logout_participant sid a =
     a\<lparr>state := (state a)
        \<lparr>participants := filter (\<lambda>p. session_id p \<noteq> sid) (participants (state a))\<rparr>\<rparr>"

definition get_data_par_pseudo :: "string \<Rightarrow> app_manager \<Rightarrow> participant option" where
  "get_data_par_pseudo ps a = List.find (\<lambda>p. pseudo p = ps) (participants (state a))"

definition tout_le_monde_a_vote :: "app_manager \<Rightarrow> bool" where
  "tout_le_monde_a_vote a =
     list_all (\<lambda>p. vote p \<noteq> None)
       (filter (\<lambda>p. fonction p = ''Votant'') (participants (state a)))"

text \<open>A sequence of calls to join and logout; a join that raises leaves the roster as it was.\<close>

datatype appel = Join string string | Logout string

fun executer :: "appel list \<Rightarrow> app_manager \<Rightarrow> app_manager" where
  "executer [] a = a"
| "executer (Join ps sid # cs) a = executer cs (snd (ajouter_participant ps sid a))"
| "executer (Logout sid # cs) a = executer cs (logout_participant sid a)"

definition nb_fonction :: "string \<Rightarrow> app_manager \<Rightarrow> nat" where
  "nb_fonction r a = length (filter (\<lambda>p. fonction p = r) (participants (state a)))"

section \<open>Backlog operations\<close>

text \<open>
  The backlog is the list held in memory; writing it to the JSON file
  (\<open>sauvegarder_backlog\<close>) catches its own errors and changes nothing in memory, so it is
  left out.
\<close>

definition get_fonctionnalite :: "int \<Rightarrow> app_manager \<Rightarrow> fonctionnalite option" where
  "get_fonctionnalite fid a = List.find (\<lambda>f. id_f f = fid) (backlog a)"

definition afficher_fonctionnalite_prioritaire :: "app_manager \<Rightarrow> fonctionnalite option" where
  "afficher_fonctionnalite_prioritaire a = (case backlog a of [] \<Rightarrow> None | f # fs \<Rightarrow> Some f)"

fun premiere_erreur :: "(erreur + 'a) list \<Rightarrow> erreur option" where
  "premiere_erreur [] = None"
| "premiere_erreur (Inl e # rs) = Some e"
| "premiere_erreur (Inr v # rs) = premiere_erreur rs"

text \<open>The sort key \<open>int(f.priorite)\<close>, where it is defined.\<close>

definition cle_priorite :: "fonctionnalite \<Rightarrow> int" where
  "cle_priorite f = (case py_int (priorite f) of Inr n \<Rightarrow> n | Inl e \<Rightarrow> 0)"

text \<open>
  \<open>list.sort(key=...)\<close> computes every key first: a key that raises leaves the list in
  its order and the error goes to the caller. Otherwise the list is sorted by a stable
  sort.
\<close>

definition trier_backlog :: "app_manager \<Rightarrow> (erreur + unit) \<times> app_manager" where
  "trier_backlog a =
     (case premiere_erreur (map (\<lambda>f. py_int (priorite f)) (backlog a)) of
        Some e \<Rightarrow> (Inl e, a)
      | None \<Rightarrow> (Inr (), a\<lparr>backlog := sort_key cle_priorite (backlog a)\<rparr>))"

definition py_max_defaut :: "int list \<Rightarrow> int \<Rightarrow> int" where
  "py_max_defaut xs d = (case xs of [] \<Rightarrow> d | y # ys \<Rightarrow> fold max ys y)"

definition nouvelle_fonctionnalite ::
  "string \<Rightarrow> string \<Rightarrow> valeur \<Rightarrow> valeur option \<Rightarrow> string \<Rightarrow> string \<Rightarrow> string list
     \<Rightarrow> app_manager \<Rightarrow> fonctionnalite" where
  "nouvelle_fonctionnalite n d p di st m ps a =
     \<lparr> id_f = py_max_defaut (map id_f (backlog a)) 0 + 1, nom = n, description = d,
       priorite = p, difficulte = di, statut = st, mode_de_vote = m, participants_f = ps \<rparr>"

text \<open>
  \<open>ajout_fonctionnalite\<close> appends, then sorts inside \<open>try ... except Exception\<close>: an
  error of the sort is printed and the feature stays appended.
\<close>

definition ajout_fonctionnalite ::
  "string \<Rightarrow> string \<Rightarrow> valeur \<Rightarrow> valeur option \<Rightarrow> string \<Rightarrow> string \<Rightarrow> string list
     \<Rightarrow> app_manager \<Rightarrow> (erreur + unit) \<times> app_manager" where
  "ajout_fonctionnalite n d p di st m ps a =
     (Inr (),
      snd (trier_backlog (a\<lparr>backlog := backlog a @ [nouvelle_fonctionnalite n d p di st m ps a]\<rparr>)))"

text \<open>
  The keyword arguments of \<open>modifier_fonctionnalite\<close>: one constructor for each
  attribute of a feature, and \<open>Autre\<close> for any other key, which \<open>hasattr\<close> refuses.
\<close>

datatype champ =
    Id int
  | Nom string
  | Description string
  | Priorite valeur
  | Difficulte "valeur option"
  | Statut string
  | Mode_de_vote string
  | Participants "string list"
  | Autre string

fun setattr_f :: "champ \<Rightarrow> fonctionnalite \<Rightarrow> fonctionnalite" where
  "setattr_f (Id v) f = f\<lparr>id_f := v\<rparr>"
| "setattr_f (Nom v) f = f\<lparr>nom := v\<rparr>"
| "setattr_f (Description v) f = f\<lparr>description := v\<rparr>"
| "setattr_f (Priorite v) f = f\<lparr>priorite := v\<rparr>"
| "setattr_f (Difficulte v) f = f\<lparr>difficulte := v\<rparr>"
| "setattr_f (Statut v) f = f\<lparr>statut := v\<rparr>"
| "setattr_f (Mode_de_vote v) f = f\<lparr>mode_de_vote := v\<rparr>"
| "setattr_f (Participants v) f = f\<lparr>participants_f := v\<rparr>"
| "setattr_f (Autre k) f = f"

text \<open>The object found by \<open>next(...)\<close> is the first match; it is changed in place.\<close>

fun maj_premier :: "('a \<Rightarrow> bool) \<Rightarrow> ('a \<Rightarrow> 'a) \<Rightarrow> 'a list \<Rightarrow> 'a list" where
  "maj_premier P g [] = []"
| "maj_premier P g (x # xs) = (if P x then g x # xs else x # maj_premier P g xs)"

definition modifier_fonctionnalite ::
  "int \<Rightarrow> champ list \<Rightarrow> app_manager \<Rightarrow> (erreur + unit) \<times> app_manager" where
  "modifier_fonctionnalite fid kwargs a =
     (case List.find (\<lambda>f. id_f f = fid) (backlog a) of
        None \<Rightarrow> (Inl FonctionnaliteNonTrouvee, a)
      | Some f \<Rightarrow>
          trier_backlog
            (a\<lparr>backlog := maj_premier (\<lambda>f. id_f f = fid) (fold setattr_f kwargs) (backlog a)\<rparr>))"

definition supprimer_fonctionnalite :: "int \<Rightarrow> app_manager \<Rightarrow> app_manager" where
  "supprimer_fonctionnalite fid a = a\<lparr>backlog := filter (\<lambda>f. id_f f \<noteq> fid) (backlog a)\<rparr>"

subsection \<open>The request handler that adds a feature\<close>

datatype reponse =
    Redirection_salle_de_vote
  | Redirection_backlog
  | Redirection_afficher_ajout
  | Page_ajout "string list"

definition form_get :: "(string \<times> string) list \<Rightarrow> string \<Rightarrow> string \<Rightarrow> string" where
  "form_get form k d = (case map_of form k of None \<Rightarrow> d | Some v \<Rightarrow> v)"

text \<open>
  The test \<open>not s.isdigit() or not (lo <= int(s) <= hi)\<close> of the handler: whether the
  field is refused, or the error \<open>int\<close> raises.
\<close>

definition champ_refuse :: "int \<Rightarrow> int \<Rightarrow> string \<Rightarrow> erreur + bool" where
  "champ_refuse lo hi s =
     (if \<not> py_isdigit s then Inr True
      else case py_int (Chaine s) of
             Inl e \<Rightarrow> Inl e
           | Inr n \<Rightarrow> Inr (\<not> (lo \<le> n \<and> n \<le> hi)))"

text \<open>
  \<open>ajouter_fonctionnalite\<close> of \<open>app.py\<close>: the active pseudo of the session, the form and
  the participants kept in the session. The page that shows the form again carries the
  names of the refused fields. An error raised inside the \<open>try\<close> block, as \<open>int\<close> does
  on a superscript digit or on too many digits, is caught by \<open>except Exception\<close>, which
  redirects to the add form.
\<close>

definition ajouter_fonctionnalite ::
  "constantes \<Rightarrow> string option \<Rightarrow> (string \<times> string) list \<Rightarrow> string list
     \<Rightarrow> app_manager \<Rightarrow> reponse \<times> app_manager" where
  "ajouter_fonctionnalite c pseudo_actif form participants_temp a =
     (if (case pseudo_actif of None \<Rightarrow> True | Some p \<Rightarrow> p = [] \<or> py_lower p \<noteq> ''po'')
      then (Redirection_salle_de_vote, a)
      else
        let n = py_strip (form_get form ''nom'' []);
            d = py_strip (form_get form ''description'' []);
            p = py_strip (form_get form ''priorite'' []);
            di = py_strip (form_get form ''difficulte'' []);
            m = py_strip (form_get form ''mode_de_vote'' ''unanimite'');
            st = py_strip (form_get form ''statut'' ''A faire'')
        in case champ_refuse (PRIORITE_MIN c) (PRIORITE_MAX c) p of
             Inl e \<Rightarrow> (Redirection_afficher_ajout, a)
           | Inr rp \<Rightarrow>
               (case champ_refuse (DIFFICULTE_MIN c) (DIFFICULTE_MAX c) di of
                  Inl e \<Rightarrow> (Redirection_afficher_ajout, a)
                | Inr rd \<Rightarrow>
                    if rp \<or> rd
                    then (Page_ajout ((if rp then [''priorite''] else [])
                                      @ (if rd then [''difficulte''] else [])), a)
                    else (case py_int (Chaine p) of
                            Inl e \<Rightarrow> (Redirection_afficher_ajout, a)
                          | Inr pn \<Rightarrow>
                              (case py_int (Chaine di) of
                                 Inl e \<Rightarrow> (Redirection_afficher_ajout, a)
                               | Inr dn \<Rightarrow>
                                   (Redirection_backlog,
                                    snd (ajout_fonctionnalite n d (Entier pn) (Some (Entier dn))
                                           st m participants_temp a))))))"

section \<open>Voting\<close>

definition initier_vote :: "int \<Rightarrow> app_manager \<Rightarrow> (erreur + unit) \<times> app_manager" where
  "initier_vote fid a =
     (case List.find (\<lambda>f. id_f f = fid) (backlog a) of
        None \<Rightarrow> (Inl FonctionnaliteNonTrouvee, a)
      | Some f \<Rightarrow>
          (Inr (),
           a\<lparr>state := (state a)
              \<lparr>indicateurs := (indicateurs (state a))
                  \<lparr>vote_commence := True, tout_le_monde_a_vote_ind := False\<rparr>,
               id_fonctionnalite := Some fid,
               participants := map (\<lambda>p. p\<lparr>vote := None\<rparr>) (participants (state a))\<rparr>\<rparr>))"

text \<open>
  \<open>ajouter_vote\<close> subscripts what \<open>get_data_par_pseudo\<close> returns: \<open>None\<close> when no
  participant has the pseudo, and subscripting \<open>None\<close> raises \<open>TypeError\<close>.
\<close>

definition ajouter_vote ::
  "string \<Rightarrow> valeur \<Rightarrow> app_manager \<Rightarrow> (erreur + unit) \<times> app_manager" where
  "ajouter_vote ps v a =
     (case get_data_par_pseudo ps a of
        None \<Rightarrow> (Inl TypeErrorNone, a)
      | Some p \<Rightarrow>
          if vote p \<noteq> None then (Inl (DejaVote (pseudo p)), a)
          else (Inr (),
                a\<lparr>state := (state a)
                   \<lparr>participants :=
                      maj_premier (\<lambda>q. pseudo q = ps) (\<lambda>q. q\<lparr>vote := Some v\<rparr>)
                        (participants (state a))\<rparr>\<rparr>))"

text \<open>
  A dictionary built by a comprehension: a key met again keeps its place and takes the
  new value.
\<close>

definition construire_dict :: "('k \<times> 'v) list \<Rightarrow> ('k \<times> 'v) list" where
  "construire_dict kvs = fold (\<lambda>(k, v) d. AList.update k v d) kvs []"

definition reveler_votes :: "app_manager \<Rightarrow> (string \<times> valeur) list \<times> app_manager" where
  "reveler_votes a =
     (construire_dict
        (List.map_filter (\<lambda>p. map_option (\<lambda>v. (pseudo p, v)) (vote p)) (participants (state a))),
      a\<lparr>state := (state a)
         \<lparr>indicateurs := (indicateurs (state a))\<lparr>votes_reveles := True\<rparr>\<rparr>\<rparr>)"

definition votes_des_votants :: "app_manager \<Rightarrow> (string \<times> valeur) list" where
  "votes_des_votants a =
     construire_dict
       (List.map_filter
          (\<lambda>p. if fonction p = ''Votant'' then map_option (\<lambda>v. (pseudo p, v)) (vote p) else None)
          (participants (state a)))"

fun py_int_liste :: "valeur list \<Rightarrow> erreur + int list" where
  "py_int_liste [] = Inr []"
| "py_int_liste (v # vs) =
     (case py_int v of
        Inl e \<Rightarrow> Inl e
      | Inr n \<Rightarrow> (case py_int_liste vs of Inl e \<Rightarrow> Inl e | Inr ns \<Rightarrow> Inr (n # ns)))"

text \<open>\<open>statistics.median\<close> on integers: the middle value, or the mean of the two middle ones.\<close>

definition mediane :: "int list \<Rightarrow> erreur + rat" where
  "mediane xs =
     (let s = sort xs; n = length s in
      if n = 0 then Inl StatisticsError
      else if n mod 2 = 1 then Inr (of_int (s ! (n div 2)))
      else py_truediv (s ! (n div 2 - 1) + s ! (n div 2)) 2)"

definition approuver :: "bool \<Rightarrow> app_manager \<Rightarrow> (erreur + bool) \<times> app_manager" where
  "approuver b a =
     (Inr b,
      a\<lparr>state := (state a)
         \<lparr>indicateurs := (indicateurs (state a))\<lparr>fonctionnalite_approuvee := b\<rparr>\<rparr>\<rparr>)"

definition valider_vote :: "constantes \<Rightarrow> app_manager \<Rightarrow> (erreur + bool) \<times> app_manager" where
  "valider_vote c a =
     (case id_fonctionnalite (state a) of
        None \<Rightarrow> (Inr False, a)
      | Some fid \<Rightarrow>
          if fid = 0 then (Inr False, a)
          else if votes_des_votants a = [] then (Inr False, a)
          else
            (case List.find (\<lambda>f. id_f f = fid) (backlog a) of
               None \<Rightarrow> (Inr False, a)
             | Some f \<Rightarrow>
                 if mode_de_vote f = ''unanimite'' then
                   approuver (length (remdups (map snd (votes_des_votants a))) = 1) a
                 else if mode_de_vote f = ''moyenne'' then
                   (case py_int_liste (map snd (votes_des_votants a)) of
                      Inl e \<Rightarrow> (Inl e, a)
                    | Inr ns \<Rightarrow>
                        (case py_truediv (sum_list ns) (int (length (votes_des_votants a))) of
                           Inl e \<Rightarrow> (Inl e, a)
                         | Inr moyenne \<Rightarrow> approuver (SEUIL_APPROBATION_MOYENNE c \<le> moyenne) a))
                 else if mode_de_vote f = ''mediane'' then
                   (if \<not> exporte_statistics c then (Inl (NameError ''statistics''), a)
                    else
                      (case py_int_liste (map snd (votes_des_votants a)) of
                         Inl e \<Rightarrow> (Inl e, a)
                       | Inr ns \<Rightarrow>
                           (case mediane ns of
                              Inl e \<Rightarrow> (Inl e, a)
                            | Inr m \<Rightarrow> approuver (SEUIL_APPROBATION_MEDIANE c \<le> m) a)))
                 else approuver False a))"

definition reinitialiser_votes :: "app_manager \<Rightarrow> app_manager" where
  "reinitialiser_votes a =
     a\<lparr>state := (state a)
        \<lparr>participants := map (\<lambda>p. p\<lparr>vote := None\<rparr>) (participants (state a)),
         indicateurs := (indicateurs (state a))\<lparr>vote_commence := False, votes_reveles := False\<rparr>\<rparr>\<rparr>"

section \<open>Properties stated by the specification\<close>

text \<open>A value that \<open>int\<close> accepts.\<close>

definition est_entier :: "valeur \<Rightarrow> bool" where
  "est_entier v = (case py_int v of Inr n \<Rightarrow> True | Inl e \<Rightarrow> False)"

text \<open>A backlog whose priorities are integers, in ascending order.\<close>

definition trie_par_priorite :: "fonctionnalite list \<Rightarrow> bool" where
  "trie_par_priorite b = (list_all (\<lambda>f. est_entier (priorite f)) b \<and> sorted (map cle_priorite b))"

fun champ_entier :: "champ \<Rightarrow> bool" where
  "champ_entier (Priorite v) = est_entier v"
| "champ_entier c = True"

text \<open>The features of equal priority come in the same order in both lists.\<close>

definition egaux_dans_l_ordre :: "fonctionnalite list \<Rightarrow> fonctionnalite list \<Rightarrow> bool" where
  "egaux_dans_l_ordre b b' =
     (\<forall>k. filter (\<lambda>f. cle_priorite f = k) b' = filter (\<lambda>f. cle_priorite f = k) b)"

text \<open>A form field that is a number within the bounds.\<close>

definition dans_les_bornes :: "int \<Rightarrow> int \<Rightarrow> string \<Rightarrow> bool" where
  "dans_les_bornes lo hi s =
     (py_isdigit s \<and> (case py_int (Chaine s) of Inr n \<Rightarrow> lo \<le> n \<and> n \<le> hi | Inl e \<Rightarrow> False))"

text \<open>A form field that \<open>str.isdigit\<close> accepts and on which \<open>int\<close> raises.\<close>

definition leve_en_int :: "string \<Rightarrow> bool" where
  "leve_en_int s = (py_isdigit s \<and> \<not> est_entier (Chaine s))"

definition est_po :: "string option \<Rightarrow> bool" where
  "est_po pa = (case pa of None \<Rightarrow> False | Some p \<Rightarrow> p \<noteq> [] \<and> py_lower p = ''po'')"

text \<open>A letter a to z, in either case.\<close>

definition est_lettre_ascii :: "char \<Rightarrow> bool" where
  "est_lettre_ascii c =
     (let n = (of_char c :: nat) in (65 \<le> n \<and> n \<le> 90) \<or> (97 \<le> n \<and> n \<le> 122))"

text \<open>The distinct vote values among the connected voters who have voted.\<close>

definition valeurs_des_votants :: "app_manager \<Rightarrow> valeur set" where
  "valeurs_des_votants a =
     set (List.map_filter (\<lambda>p. if fonction p = ''Votant'' then vote p else None)
            (participants (state a)))"

section \<open>Examples\<close>

definition manager_vide :: app_manager where
  "manager_vide = \<lparr> backlog = [], state = etat_initial \<rparr>"

definition constantes_exemple :: constantes where
  "constantes_exemple =
     \<lparr> SEUIL_APPROBATION_MOYENNE = 4, SEUIL_APPROBATION_MEDIANE = 4,
       PRIORITE_MIN = 1, PRIORITE_MAX = 5, DIFFICULTE_MIN = 1, DIFFICULTE_MAX = 13,
       exporte_statistics = False \<rparr>"

text \<open>
  One feature with the given voting mode; the Scrum Master, hugo and lina connected; the
  round started; hugo and lina have voted.
\<close>

definition salle :: "string \<Rightarrow> valeur \<Rightarrow> valeur \<Rightarrow> app_manager" where
  "salle m v w =
     (let a1 = snd (ajout_fonctionnalite ''Connexion'' ''Page de connexion'' (Entier 1)
                      (Some (Entier 3)) ''A faire'' m [''hugo'', ''lina''] manager_vide);
          a2 = executer [Join ''sm'' ''s0'', Join ''hugo'' ''s1'', Join ''lina'' ''s2''] a1;
          a3 = snd (initier_vote 1 a2);
          a4 = snd (ajouter_vote ''hugo'' v a3)
      in snd (ajouter_vote ''lina'' w a4))"

text \<open>The same room after the Scrum Master has revealed the votes 5 and 8.\<close>

definition salle_revelee :: app_manager where
  "salle_revelee = snd (reveler_votes (salle ''unanimite'' (Chaine ''5'') (Chaine ''8'')))"

text \<open>Three features, two of them of priority 2.\<close>

definition backlog_exemple :: app_manager where
  "backlog_exemple =
     (let a1 = snd (ajout_fonctionnalite ''A'' ''a'' (Chaine ''2'') None ''A faire''
                      ''unanimite'' [] manager_vide);
          a2 = snd (ajout_fonctionnalite ''B'' ''b'' (Entier 1) None ''A faire'' ''moyenne'' [] a1)
      in snd (ajout_fonctionnalite ''C'' ''c'' (Entier 2) None ''A faire'' ''mediane'' [] a2))"

text \<open>
  The keyword arguments the edit handler builds from its form, in the order of its
  dictionary, when the priority field holds the word haute.
\<close>

definition edition_haute :: "champ list" where
  "edition_haute =
     [Nom ''B'', Description ''b'', Priorite (Chaine ''haute''), Difficulte (Some (Chaine ''3'')),
      Mode_de_vote ''moyenne'', Statut ''A faire'', Participants []]"

text \<open>A backlog whose first feature expects alice.\<close>

definition backlog_alice :: app_manager where
  "backlog_alice =
     snd (ajout_fonctionnalite ''Paiement'' ''Payer en ligne'' (Entier 1) (Some (Entier 5))
            ''A faire'' ''unanimite'' [''alice''] manager_vide)"

section \<open>Properties of the roster\<close>

lemma filter_vide_si_aucun: "\<not> list_ex P xs \<Longrightarrow> filter P xs = []"
  by (induction xs) auto

lemma nb_fonction_ajouter:
  assumes "nb_fonction ''Product Owner'' a \<le> 1" and "nb_fonction ''Scrum Master'' a \<le> 1"
  shows "nb_fonction ''Product Owner'' (snd (ajouter_participant ps sid a)) \<le> 1
       \<and> nb_fonction ''Scrum Master'' (snd (ajouter_participant ps sid a)) \<le> 1"
  using assms
  by (auto simp: ajouter_participant_def nb_fonction_def filter_vide_si_aucun)

lemma nb_fonction_logout:
  "nb_fonction r a \<le> 1 \<Longrightarrow> nb_fonction r (logout_participant sid a) \<le> 1"
proof -
  have "length (filter (\<lambda>p. fonction p = r) (filter (\<lambda>p. session_id p \<noteq> sid) xs))
        \<le> length (filter (\<lambda>p. fonction p = r) xs)" for xs :: "participant list"
    by (induction xs) auto
  from this [of "participants (state a)"]
  show "nb_fonction r a \<le> 1 \<Longrightarrow> nb_fonction r (logout_participant sid a) \<le> 1"
    unfolding nb_fonction_def logout_participant_def by simp
qed

lemma executer_invariant:
  "nb_fonction ''Product Owner'' a \<le> 1 \<Longrightarrow> nb_fonction ''Scrum Master'' a \<le> 1 \<Longrightarrow>
   nb_fonction ''Product Owner'' (executer cs a) \<le> 1
   \<and> nb_fonction ''Scrum Master'' (executer cs a) \<le> 1"
proof (induction cs arbitrary: a)
  case Nil
  then show ?case by simp
next
  case (Cons c cs)
  show ?case
  proof (cases c)
    case (Join ps sid)
    from nb_fonction_ajouter [OF Cons.prems, of ps sid]
      Cons.IH [of "snd (ajouter_participant ps sid a)"]
    show ?thesis by (simp add: Join)
  next
    case (Logout sid)
    from Cons.prems have "nb_fonction ''Product Owner'' (logout_participant sid a) \<le> 1"
      and "nb_fonction ''Scrum Master'' (logout_participant sid a) \<le> 1"
      by (blast intro: nb_fonction_logout)+
    from Cons.IH [OF this] show ?thesis by (simp add: Logout)
  qed
qed

text \<open>
  Claim C7. Whatever calls to join and logout are made from the empty roster, at most one
  connected participant is Product Owner and at most one is Scrum Master.
\<close>

theorem un_seul_po_et_sm:
  "participants (state a) = [] \<Longrightarrow>
   nb_fonction ''Product Owner'' (executer cs a) \<le> 1
   \<and> nb_fonction ''Scrum Master'' (executer cs a) \<le> 1"
  by (rule executer_invariant) (simp_all add: nb_fonction_def)

theorem un_seul_po_et_sm_witness:
  "participants (state manager_vide) = []
   \<and> nb_fonction ''Product Owner''
       (executer [Join ''po'' ''s1'', Join ''PO'' ''s2'', Join ''sm'' ''s3'', Logout ''s1'',
                  Join ''Po'' ''s4'', Join ''SM'' ''s5''] manager_vide) \<le> 1
   \<and> nb_fonction ''Scrum Master''
       (executer [Join ''po'' ''s1'', Join ''PO'' ''s2'', Join ''sm'' ''s3'', Logout ''s1'',
                  Join ''Po'' ''s4'', Join ''SM'' ''s5''] manager_vide) \<le> 1"
proof -
  have h: "participants (state manager_vide) = []"
    by (simp add: manager_vide_def etat_initial_def)
  from un_seul_po_et_sm [OF h] h show ?thesis by blast
qed

text \<open>The pseudos of the roster stay distinct along calls to join and logout.\<close>

lemma pseudos_distincts_ajouter:
  "distinct (map pseudo (participants (state a))) \<Longrightarrow>
   distinct (map pseudo (participants (state (snd (ajouter_participant ps sid a)))))"
  by (auto simp: ajouter_participant_def)

lemma pseudos_distincts_logout:
  "distinct (map pseudo (participants (state a))) \<Longrightarrow>
   distinct (map pseudo (participants (state (logout_participant sid a))))"
  by (simp add: logout_participant_def distinct_map_filter)

lemma pseudos_distincts_executer:
  "distinct (map pseudo (participants (state a))) \<Longrightarrow>
   distinct (map pseudo (participants (state (executer cs a))))"
proof (induction cs arbitrary: a)
  case Nil
  then show ?case by simp
next
  case (Cons c cs)
  then show ?case
    by (cases c) (simp_all add: pseudos_distincts_ajouter pseudos_distincts_logout)
qed

text \<open>A pseudo that passes the allow-list is made of the letters a to z, in either case.\<close>

lemma minuscule_de_lettre:
  assumes "97 \<le> (of_char (py_lower_char c) :: nat)"
    and "(of_char (py_lower_char c) :: nat) \<le> 122"
  shows "est_lettre_ascii c"
proof -
  let ?n = "of_char c :: nat"
  show ?thesis
  proof (cases "(65 \<le> ?n \<and> ?n \<le> 90) \<or> (192 \<le> ?n \<and> ?n \<le> 222 \<and> ?n \<noteq> 215)")
    case True
    then have "py_lower_char c = char_of (?n + 32)"
      by (auto simp: py_lower_char_def Let_def)
    then have "(of_char (py_lower_char c) :: nat) = (?n + 32) mod 256" by simp
    with True have "(of_char (py_lower_char c) :: nat) = ?n + 32" by auto
    with assms True show ?thesis by (auto simp: est_lettre_ascii_def Let_def)
  next
    case False
    then have "py_lower_char c = c" by (auto simp: py_lower_char_def Let_def)
    with assms show ?thesis by (auto simp: est_lettre_ascii_def Let_def)
  qed
qed

lemma pseudo_autorise_ascii:
  assumes "py_lower ps \<in> set PARTICIPANTS_AUTORISES"
  shows "list_all est_lettre_ascii ps"
proof -
  have "list_all (\<lambda>d. 97 \<le> (of_char d :: nat) \<and> (of_char d :: nat) \<le> 122) w"
    if "w \<in> set PARTICIPANTS_AUTORISES" for w
    using that by (auto simp: PARTICIPANTS_AUTORISES_def)
  from this [OF assms]
  have "\<forall>c \<in> set ps. 97 \<le> (of_char (py_lower_char c) :: nat)
          \<and> (of_char (py_lower_char c) :: nat) \<le> 122"
    by (simp add: py_lower_def list_all_iff)
  then show ?thesis by (auto simp: list_all_iff intro: minuscule_de_lettre)
qed

text \<open>
  Claim C10. When no connected participant is a voter, \<open>tout_le_monde_a_vote\<close> returns
  true, whether or not a vote was cast.
\<close>

theorem tout_le_monde_a_vote_sans_votant:
  "list_all (\<lambda>p. fonction p \<noteq> ''Votant'') (participants (state a)) \<Longrightarrow> tout_le_monde_a_vote a"
  by (simp add: tout_le_monde_a_vote_def list_all_iff)

theorem tout_le_monde_a_vote_sans_votant_witness:
  "list_all (\<lambda>p. fonction p \<noteq> ''Votant'')
     (participants (state (executer [Join ''po'' ''s1'', Join ''sm'' ''s2''] manager_vide)))
   \<and> tout_le_monde_a_vote (executer [Join ''po'' ''s1'', Join ''sm'' ''s2''] manager_vide)"
proof -
  have h: "list_all (\<lambda>p. fonction p \<noteq> ''Votant'')
     (participants (state (executer [Join ''po'' ''s1'', Join ''sm'' ''s2''] manager_vide)))"
    by code_simp
  from tout_le_monde_a_vote_sans_votant [OF h] h show ?thesis by blast
qed

text \<open>
  Claim C3, as the code has it. A join is refused as unauthorised exactly when the pseudo
  is not empty and its lower-case form is not in the list written in
  \<open>ajouter_participant\<close>; the backlog is not read.
\<close>

theorem non_autorise_ssi_hors_liste:
  "fst (ajouter_participant ps sid a) = Inl (NonAutorise ps)
   \<longleftrightarrow> ps \<noteq> [] \<and> py_lower ps \<notin> set PARTICIPANTS_AUTORISES"
  by (simp add: ajouter_participant_def)

text \<open>
  Claim C3 as stated fails: alice is expected on the first feature of the backlog and her
  join is refused.
\<close>

theorem participant_du_backlog_refuse:
  "map_option participants_f (afficher_fonctionnalite_prioritaire backlog_alice) = Some [''alice'']
   \<and> fst (ajouter_participant ''alice'' ''s1'' backlog_alice) = Inl (NonAutorise ''alice'')"
  by code_simp

text \<open>
  Claim C9, as the code has it. After a join that succeeded, a second join with the very
  same pseudo is refused as a duplicate and leaves the manager as the first join left it.
\<close>

theorem doublon_exact_rejete:
  "fst (ajouter_participant ps s1 a) = Inr () \<Longrightarrow>
   ajouter_participant ps s2 (snd (ajouter_participant ps s1 a))
     = (Inl (PseudoExiste ps), snd (ajouter_participant ps s1 a))"
  by (auto simp: ajouter_participant_def split: if_splits)

theorem doublon_exact_rejete_witness:
  "fst (ajouter_participant ''hugo'' ''1234'' manager_vide) = Inr ()
   \<and> ajouter_participant ''hugo'' ''5678'' (snd (ajouter_participant ''hugo'' ''1234'' manager_vide))
       = (Inl (PseudoExiste ''hugo''), snd (ajouter_participant ''hugo'' ''1234'' manager_vide))"
proof -
  have h: "fst (ajouter_participant ''hugo'' ''1234'' manager_vide) = Inr ()"
    by code_simp
  from doublon_exact_rejete [OF h] h show ?thesis by blast
qed

text \<open>
  Claim C9 as stated fails: after hugo has joined, Hugo, the same pseudo in another case,
  joins too and the roster has two participants.
\<close>

theorem doublon_autre_casse_accepte:
  "py_lower ''Hugo'' = py_lower ''hugo''
   \<and> fst (ajouter_participant ''hugo'' ''1234'' manager_vide) = Inr ()
   \<and> fst (ajouter_participant ''Hugo'' ''5678''
            (snd (ajouter_participant ''hugo'' ''1234'' manager_vide))) = Inr ()
   \<and> map pseudo (participants (state (snd (ajouter_participant ''Hugo'' ''5678''
            (snd (ajouter_participant ''hugo'' ''1234'' manager_vide))))))
       = [''hugo'', ''Hugo'']"
  by code_simp

section \<open>Properties of the backlog\<close>

lemma premiere_erreur_entiers:
  "list_all (\<lambda>f. est_entier (priorite f)) b \<Longrightarrow>
   premiere_erreur (map (\<lambda>f. py_int (priorite f)) b) = None"
  by (induction b) (auto simp: est_entier_def split: sum.splits)

lemma trier_backlog_entiers:
  assumes "list_all (\<lambda>f. est_entier (priorite f)) (backlog a)"
  shows "trier_backlog a = (Inr (), a\<lparr>backlog := sort_key cle_priorite (backlog a)\<rparr>)"
  by (simp add: trier_backlog_def premiere_erreur_entiers [OF assms])

lemma trie_sort_key:
  "list_all (\<lambda>f. est_entier (priorite f)) b \<Longrightarrow> trie_par_priorite (sort_key cle_priorite b)"
  by (simp add: trie_par_priorite_def list_all_iff)

lemma egaux_sort_key: "egaux_dans_l_ordre b (sort_key cle_priorite b)"
  by (simp add: egaux_dans_l_ordre_def sort_key_stable)

lemma setattr_entier:
  "est_entier (priorite f) \<Longrightarrow> list_all champ_entier kw \<Longrightarrow>
   est_entier (priorite (fold setattr_f kw f))"
proof (induction kw arbitrary: f)
  case Nil
  then show ?case by simp
next
  case (Cons c kw)
  then show ?case by (cases c) simp_all
qed

lemma maj_premier_tous:
  "list_all Q b \<Longrightarrow> (\<And>x. Q x \<Longrightarrow> Q (g x)) \<Longrightarrow> list_all Q (maj_premier P g b)"
  by (induction b) auto

lemma maj_premier_absent: "List.find P b = None \<Longrightarrow> maj_premier P g b = b"
  by (induction b) (auto split: if_splits)

text \<open>
  With priorities that \<open>int\<close> accepts, in the backlog and in the arguments, an add, an
  update and a remove leave the backlog sorted by ascending priority; the features of
  equal priority keep the order they had in the list the operation built (the old list
  with the new feature at its end, the old list with the feature changed in place, the
  old list without the removed feature).
\<close>

lemma backlog_reste_trie:
  assumes "trie_par_priorite (backlog a)" and "est_entier p" and "list_all champ_entier kw"
  shows "fst (ajout_fonctionnalite n d p di st m ps a) = Inr ()
       \<and> trie_par_priorite (backlog (snd (ajout_fonctionnalite n d p di st m ps a)))
       \<and> egaux_dans_l_ordre (backlog a @ [nouvelle_fonctionnalite n d p di st m ps a])
            (backlog (snd (ajout_fonctionnalite n d p di st m ps a)))
       \<and> fst (modifier_fonctionnalite fid kw a)
            = (if get_fonctionnalite fid a = None then Inl FonctionnaliteNonTrouvee else Inr ())
       \<and> trie_par_priorite (backlog (snd (modifier_fonctionnalite fid kw a)))
       \<and> egaux_dans_l_ordre
            (maj_premier (\<lambda>f. id_f f = fid) (fold setattr_f kw) (backlog a))
            (backlog (snd (modifier_fonctionnalite fid kw a)))
       \<and> trie_par_priorite (backlog (supprimer_fonctionnalite fid' a))
       \<and> egaux_dans_l_ordre (filter (\<lambda>f. id_f f \<noteq> fid') (backlog a))
            (backlog (supprimer_fonctionnalite fid' a))"
proof (intro conjI)
  from assms(1) have ent: "list_all (\<lambda>f. est_entier (priorite f)) (backlog a)"
    and tri: "sorted (map cle_priorite (backlog a))"
    by (simp_all add: trie_par_priorite_def)
  let ?b = "backlog a @ [nouvelle_fonctionnalite n d p di st m ps a]"
  from ent assms(2)
  have e: "list_all (\<lambda>f. est_entier (priorite f)) (backlog (a\<lparr>backlog := ?b\<rparr>))"
    by (simp add: nouvelle_fonctionnalite_def)
  have r: "backlog (snd (ajout_fonctionnalite n d p di st m ps a)) = sort_key cle_priorite ?b"
    by (simp add: ajout_fonctionnalite_def trier_backlog_entiers [OF e])
  show "fst (ajout_fonctionnalite n d p di st m ps a) = Inr ()"
    by (simp add: ajout_fonctionnalite_def)
  from e show "trie_par_priorite (backlog (snd (ajout_fonctionnalite n d p di st m ps a)))"
    unfolding r by (intro trie_sort_key) simp
  show "egaux_dans_l_ordre ?b (backlog (snd (ajout_fonctionnalite n d p di st m ps a)))"
    unfolding r by (rule egaux_sort_key)
  let ?c = "maj_premier (\<lambda>f. id_f f = fid) (fold setattr_f kw) (backlog a)"
  have e': "list_all (\<lambda>f. est_entier (priorite f)) (backlog (a\<lparr>backlog := ?c\<rparr>))"
    using ent assms(3) by (simp add: maj_premier_tous setattr_entier)
  show "fst (modifier_fonctionnalite fid kw a)
          = (if get_fonctionnalite fid a = None then Inl FonctionnaliteNonTrouvee else Inr ())"
    by (auto simp: modifier_fonctionnalite_def get_fonctionnalite_def
          trier_backlog_entiers [OF e'] split: option.splits)
  show "trie_par_priorite (backlog (snd (modifier_fonctionnalite fid kw a)))"
  proof (cases "List.find (\<lambda>f. id_f f = fid) (backlog a)")
    case None
    with assms(1) show ?thesis by (simp add: modifier_fonctionnalite_def)
  next
    case (Some f)
    then have "backlog (snd (modifier_fonctionnalite fid kw a)) = sort_key cle_priorite ?c"
      by (simp add: modifier_fonctionnalite_def trier_backlog_entiers [OF e'])
    with e' show ?thesis by (simp add: trie_sort_key)
  qed
  show "egaux_dans_l_ordre ?c (backlog (snd (modifier_fonctionnalite fid kw a)))"
  proof (cases "List.find (\<lambda>f. id_f f = fid) (backlog a)")
    case None
    then show ?thesis
      by (simp add: modifier_fonctionnalite_def maj_premier_absent egaux_dans_l_ordre_def)
  next
    case (Some f)
    then have "backlog (snd (modifier_fonctionnalite fid kw a)) = sort_key cle_priorite ?c"
      by (simp add: modifier_fonctionnalite_def trier_backlog_entiers [OF e'])
    then show ?thesis by (simp add: egaux_sort_key)
  qed
  from ent tri show "trie_par_priorite (backlog (supprimer_fonctionnalite fid' a))"
    by (simp add: trie_par_priorite_def supprimer_fonctionnalite_def sorted_filter list_all_iff)
  show "egaux_dans_l_ordre (filter (\<lambda>f. id_f f \<noteq> fid') (backlog a))
          (backlog (supprimer_fonctionnalite fid' a))"
    by (simp add: supprimer_fonctionnalite_def egaux_dans_l_ordre_def)
qed

text \<open>
  Claim C6 at an update whose priority is not a number. On the sorted backlog B, A, C
  (priorities 1, 2, 2) the edit form sends the priority haute for B:
  \<open>modifier_fonctionnalite\<close> has changed B in place when the sort raises, and the stored
  backlog is no longer sorted by priority, where the claim has it sorted after any
  update. From then on no sort succeeds: a feature added with priority 1 stays last.
\<close>

theorem modifier_priorite_non_entiere:
  "trie_par_priorite (backlog backlog_exemple)
   \<and> map nom (backlog backlog_exemple) = [''B'', ''A'', ''C'']
   \<and> fst (modifier_fonctionnalite 2 edition_haute backlog_exemple)
       = Inl (LitteralInvalide ''haute'')
   \<and> map priorite (backlog (snd (modifier_fonctionnalite 2 edition_haute backlog_exemple)))
       = [Chaine ''haute'', Chaine ''2'', Entier 2]
   \<and> \<not> trie_par_priorite (backlog (snd (modifier_fonctionnalite 2 edition_haute backlog_exemple)))
   \<and> map priorite (backlog (snd (ajout_fonctionnalite ''D'' ''d'' (Entier 1) (Some (Entier 3))
         ''A faire'' ''unanimite'' []
         (snd (modifier_fonctionnalite 2 edition_haute backlog_exemple)))))
       = [Chaine ''haute'', Chaine ''2'', Entier 2, Entier 1]"
  by code_simp

text \<open>Adding never raises and never refuses: the backlog has one feature more.\<close>

lemma ajout_sans_validation:
  "fst (ajout_fonctionnalite n d p di st m ps a) = Inr ()
   \<and> length (backlog (snd (ajout_fonctionnalite n d p di st m ps a))) = Suc (length (backlog a))"
  by (simp add: ajout_fonctionnalite_def trier_backlog_def split: option.splits)

lemma champ_refuse_cas:
  "champ_refuse lo hi s =
     (if leve_en_int s then Inl (LitteralInvalide s) else Inr (\<not> dans_les_bornes lo hi s))"
  by (auto simp: champ_refuse_def leve_en_int_def dans_les_bornes_def est_entier_def
           split: sum.splits option.splits)

lemma dans_les_bornes_entier:
  "dans_les_bornes lo hi s \<Longrightarrow> \<exists>n. py_int (Chaine s) = Inr n"
  by (auto simp: dans_les_bornes_def split: sum.splits)

text \<open>
  Claim C4, as the code has it. The bounds are checked by the request handler: when the
  priority or the difficulty of the form is not a number within the configured bounds,
  the handler leaves the backlog unchanged. It sends anyone but the Product Owner back to
  the voting room; it redirects to the add form when \<open>int\<close> raises on a field that
  \<open>str.isdigit\<close> accepts; otherwise it shows the form again with one error for each
  refused field.
\<close>

theorem validation_par_la_route:
  assumes "\<not> dans_les_bornes (PRIORITE_MIN c) (PRIORITE_MAX c)
               (py_strip (form_get form ''priorite'' []))
         \<or> \<not> dans_les_bornes (DIFFICULTE_MIN c) (DIFFICULTE_MAX c)
               (py_strip (form_get form ''difficulte'' []))"
  shows "snd (ajouter_fonctionnalite c pa form pt a) = a
       \<and> fst (ajouter_fonctionnalite c pa form pt a) =
           (if \<not> est_po pa then Redirection_salle_de_vote
            else if leve_en_int (py_strip (form_get form ''priorite'' []))
                    \<or> leve_en_int (py_strip (form_get form ''difficulte'' []))
            then Redirection_afficher_ajout
            else Page_ajout
              ((if dans_les_bornes (PRIORITE_MIN c) (PRIORITE_MAX c)
                     (py_strip (form_get form ''priorite'' []))
                then [] else [''priorite''])
               @ (if dans_les_bornes (DIFFICULTE_MIN c) (DIFFICULTE_MAX c)
                       (py_strip (form_get form ''difficulte'' []))
                  then [] else [''difficulte''])))"
  using assms
  by (auto simp: ajouter_fonctionnalite_def est_po_def champ_refuse_cas Let_def
           split: option.splits)

theorem validation_par_la_route_witness:
  "\<not> dans_les_bornes (PRIORITE_MIN constantes_exemple) (PRIORITE_MAX constantes_exemple)
        (py_strip (form_get [(''nom'', ''F''), (''priorite'', ''99''), (''difficulte'', '' 3 '')]
                     ''priorite'' []))
   \<and> ajouter_fonctionnalite constantes_exemple (Some ''po'')
       [(''nom'', ''F''), (''priorite'', ''99''), (''difficulte'', '' 3 '')] [''hugo'']
       backlog_exemple
     = (Page_ajout [''priorite''], backlog_exemple)"
proof -
  let ?form = "[(''nom'', ''F''), (''priorite'', ''99''), (''difficulte'', '' 3 '')]"
  have p: "\<not> dans_les_bornes (PRIORITE_MIN constantes_exemple) (PRIORITE_MAX constantes_exemple)
        (py_strip (form_get ?form ''priorite'' []))"
    by code_simp
  have d: "dans_les_bornes (DIFFICULTE_MIN constantes_exemple) (DIFFICULTE_MAX constantes_exemple)
        (py_strip (form_get ?form ''difficulte'' []))"
    by code_simp
  have po: "est_po (Some ''po'')" by code_simp
  have lp: "\<not> leve_en_int (py_strip (form_get ?form ''priorite'' []))" by code_simp
  have ld: "\<not> leve_en_int (py_strip (form_get ?form ''difficulte'' []))" by code_simp
  from p have h: "\<not> dans_les_bornes (PRIORITE_MIN constantes_exemple)
        (PRIORITE_MAX constantes_exemple) (py_strip (form_get ?form ''priorite'' []))
    \<or> \<not> dans_les_bornes (DIFFICULTE_MIN constantes_exemple) (DIFFICULTE_MAX constantes_exemple)
        (py_strip (form_get ?form ''difficulte'' []))"
    by (rule disjI1)
  from validation_par_la_route [OF h, of "Some ''po''" "[''hugo'']" backlog_exemple] p d po lp ld
  have "ajouter_fonctionnalite constantes_exemple (Some ''po'') ?form [''hugo''] backlog_exemple
          = (Page_ajout [''priorite''], backlog_exemple)"
    by (simp add: prod_eq_iff)
  with p show ?thesis by blast
qed

text \<open>
  A superscript two passes \<open>str.isdigit\<close> and \<open>int\<close> raises on it: the Product Owner
  is redirected to the add form.
\<close>

lemma route_exposant_deux:
  "py_isdigit [char_of (178 :: nat)]
   \<and> py_int (Chaine [char_of (178 :: nat)]) = Inl (LitteralInvalide [char_of (178 :: nat)])
   \<and> ajouter_fonctionnalite constantes_exemple (Some ''po'')
       [(''nom'', ''F''), (''priorite'', [char_of (178 :: nat)]), (''difficulte'', ''3'')] []
       backlog_exemple
     = (Redirection_afficher_ajout, backlog_exemple)"
  by code_simp

lemma chiffre_pas_espace_int: "est_chiffre c \<Longrightarrow> \<not> est_espace_int c"
  by (auto simp: est_chiffre_def est_espace_int_def Let_def)

lemma dropWhile_tete: "xs \<noteq> [] \<Longrightarrow> \<not> P (hd xs) \<Longrightarrow> dropWhile P xs = xs"
  by (cases xs) auto

lemma tete_du_renverse: "xs \<noteq> [] \<Longrightarrow> list_all Q xs \<Longrightarrow> Q (hd (rev xs))"
  by (cases xs rule: rev_cases) auto

text \<open>\<open>int\<close> raises on a string of more decimal digits than the limit.\<close>

lemma py_int_trop_de_chiffres:
  assumes "list_all est_chiffre s" and "INT_MAX_STR_DIGITS < length s"
  shows "py_int (Chaine s) = Inl (LitteralInvalide s)"
proof -
  from assms(2) obtain c cs where s: "s = c # cs" by (cases s) auto
  from assms(1) s have c: "est_chiffre c" by simp
  then have "c \<noteq> CHR ''-''" and "c \<noteq> CHR ''+''"
    by (auto simp: est_chiffre_def)
  moreover from c have d: "dropWhile est_espace_int (c # cs) = c # cs"
    by (simp add: chiffre_pas_espace_int)
  moreover have "dropWhile est_espace_int (rev (c # cs)) = rev (c # cs)"
  proof (rule dropWhile_tete)
    show "rev (c # cs) \<noteq> []" by simp
    from assms(1) s tete_du_renverse [of "c # cs" est_chiffre]
    have "est_chiffre (hd (rev (c # cs)))" by simp
    then show "\<not> est_espace_int (hd (rev (c # cs)))" by (rule chiffre_pas_espace_int)
  qed
  moreover from assms(1) s have "filter est_chiffre (c # cs) = c # cs"
    by (simp add: list_all_iff)
  ultimately have "lire_entier (c # cs) = None"
    using assms(2) s by (simp add: lire_entier_def Let_def del: dropWhile.simps)
  then show ?thesis by (simp add: s)
qed

text \<open>
  Claim C4 as stated fails: with bounds 1 to 5 for the priority, the manager adds a
  feature of priority 99 and the backlog holds it.
\<close>

theorem ajout_hors_bornes_accepte:
  "\<not> (PRIORITE_MIN constantes_exemple \<le> 99 \<and> 99 \<le> PRIORITE_MAX constantes_exemple)
   \<and> fst (ajout_fonctionnalite ''F'' ''f'' (Entier 99) (Some (Entier 3)) ''A faire''
            ''unanimite'' [] manager_vide) = Inr ()
   \<and> map priorite (backlog (snd (ajout_fonctionnalite ''F'' ''f'' (Entier 99) (Some (Entier 3))
            ''A faire'' ''unanimite'' [] manager_vide))) = [Entier 99]
   \<and> backlog manager_vide = []"
  by code_simp

section \<open>Properties of the votes\<close>

text \<open>What \<open>initier_vote\<close> writes on a feature of the backlog, and the flag it leaves.\<close>

lemma initier_vote_effet:
  assumes "get_fonctionnalite fid a \<noteq> None"
  shows "fst (initier_vote fid a) = Inr ()
       \<and> id_fonctionnalite (state (snd (initier_vote fid a))) = Some fid
       \<and> vote_commence (indicateurs (state (snd (initier_vote fid a))))
       \<and> \<not> tout_le_monde_a_vote_ind (indicateurs (state (snd (initier_vote fid a))))
       \<and> map pseudo (participants (state (snd (initier_vote fid a))))
           = map pseudo (participants (state a))
       \<and> list_all (\<lambda>p. vote p = None) (participants (state (snd (initier_vote fid a))))
       \<and> votes_reveles (indicateurs (state (snd (initier_vote fid a))))
           = votes_reveles (indicateurs (state a))"
  using assms
  by (auto simp: initier_vote_def get_fonctionnalite_def list_all_iff split: option.splits)

text \<open>The other path that clears the votes, \<open>reinitialiser_votes\<close>, clears the flag.\<close>

lemma reinitialiser_votes_efface:
  "\<not> votes_reveles (indicateurs (state (reinitialiser_votes a)))
   \<and> list_all (\<lambda>p. vote p = None) (participants (state (reinitialiser_votes a)))"
  by (simp add: reinitialiser_votes_def list_all_iff)

text \<open>
  Claim C1 after a reveal. The votes of a round have been revealed and the next round is
  started on the feature of the backlog: the call succeeds and clears the votes, and
  \<open>votes_reveles\<close> is still true, where the claim has it set to false. The vote hugo
  then casts in the new round is in what \<open>reveler_votes\<close> returns, before lina has voted.
\<close>

theorem initier_vote_garde_votes_reveles:
  "votes_reveles (indicateurs (state salle_revelee))
   \<and> get_fonctionnalite 1 salle_revelee \<noteq> None
   \<and> fst (initier_vote 1 salle_revelee) = Inr ()
   \<and> map vote (participants (state (snd (initier_vote 1 salle_revelee)))) = [None, None, None]
   \<and> votes_reveles (indicateurs (state (snd (initier_vote 1 salle_revelee))))
   \<and> fst (reveler_votes (snd (ajouter_vote ''hugo'' (Chaine ''3'')
                                 (snd (initier_vote 1 salle_revelee)))))
       = [(''hugo'', Chaine ''3'')]"
  by code_simp

text \<open>
  The three outcomes of \<open>ajouter_vote\<close>: the pseudo is not connected, the participant has
  voted already, the vote is stored.
\<close>

lemma ajouter_vote_cas:
  "(get_data_par_pseudo ps a = None \<longrightarrow> ajouter_vote ps v a = (Inl TypeErrorNone, a))
 \<and> (\<forall>p. get_data_par_pseudo ps a = Some p \<and> vote p \<noteq> None \<longrightarrow>
        ajouter_vote ps v a = (Inl (DejaVote ps), a))
 \<and> (\<forall>p. get_data_par_pseudo ps a = Some p \<and> vote p = None \<longrightarrow>
        fst (ajouter_vote ps v a) = Inr ()
      \<and> get_data_par_pseudo ps (snd (ajouter_vote ps v a)) = Some (p\<lparr>vote := Some v\<rparr>))"
proof -
  have f: "List.find P xs = Some p \<Longrightarrow> P p" for P and xs :: "participant list" and p
    by (induction xs) (auto split: if_splits)
  have g: "List.find (\<lambda>q. pseudo q = ps) xs = Some p \<Longrightarrow>
     List.find (\<lambda>q. pseudo q = ps) (maj_premier (\<lambda>q. pseudo q = ps) (\<lambda>q. q\<lparr>vote := Some v\<rparr>) xs)
       = Some (p\<lparr>vote := Some v\<rparr>)" for xs p
    by (induction xs) (auto split: if_splits)
  show ?thesis
    by (auto simp: ajouter_vote_def get_data_par_pseudo_def g dest: f)
qed

text \<open>
  Claim C5 at a pseudo that is not connected: the call raises the \<open>TypeError\<close> of
  subscripting \<open>None\<close>, which is not a \<open>ValueError\<close>, where the claim has an error of its
  own that the caller recovers from.
\<close>

theorem ajouter_vote_pseudo_inconnu:
  "get_data_par_pseudo ''fantome'' (salle ''unanimite'' (Chaine ''5'') (Chaine ''8'')) = None
   \<and> ajouter_vote ''fantome'' (Chaine ''3'') (salle ''unanimite'' (Chaine ''5'') (Chaine ''8''))
       = (Inl TypeErrorNone, salle ''unanimite'' (Chaine ''5'') (Chaine ''8''))
   \<and> \<not> est_ValueError TypeErrorNone"
  by code_simp

lemma update_absent: "k \<notin> fst ` set d \<Longrightarrow> AList.update k v d = d @ [(k, v)]"
  by (induction d) auto

lemma fold_update_distinct:
  "distinct (map fst (d @ kvs)) \<Longrightarrow> fold (\<lambda>(k, v) d. AList.update k v d) kvs d = d @ kvs"
proof (induction kvs arbitrary: d)
  case Nil
  then show ?case by simp
next
  case (Cons kv kvs)
  obtain k v where kv: "kv = (k, v)" by (cases kv)
  from Cons.prems kv have "k \<notin> fst ` set d" by auto
  then have u: "AList.update k v d = d @ [(k, v)]" by (rule update_absent)
  from Cons.prems kv have "distinct (map fst ((d @ [(k, v)]) @ kvs))" by simp
  from Cons.IH [OF this] show ?case by (simp add: kv u)
qed

lemma construire_dict_distinct: "distinct (map fst kvs) \<Longrightarrow> construire_dict kvs = kvs"
  using fold_update_distinct [of "[]" kvs] by (simp add: construire_dict_def)

lemma cles_parmi_pseudos:
  "set (map fst (List.map_filter
       (\<lambda>p. if Q p then map_option (\<lambda>v. (pseudo p, v)) (vote p) else None) xs))
   \<subseteq> set (map pseudo xs)"
  by (induction xs) (auto simp: List.map_filter_simps split: option.splits)

lemma cles_distinctes:
  "distinct (map pseudo xs) \<Longrightarrow>
   distinct (map fst (List.map_filter
       (\<lambda>p. if Q p then map_option (\<lambda>v. (pseudo p, v)) (vote p) else None) xs))"
proof (induction xs)
  case Nil
  then show ?case by (simp add: List.map_filter_simps)
next
  case (Cons x xs)
  from cles_parmi_pseudos [of Q xs] Cons show ?case
    by (auto simp: List.map_filter_simps split: option.splits)
qed

lemma votes_des_votants_distinct:
  assumes "distinct (map pseudo (participants (state a)))"
  shows "votes_des_votants a =
     List.map_filter
       (\<lambda>p. if fonction p = ''Votant'' then map_option (\<lambda>v. (pseudo p, v)) (vote p) else None)
       (participants (state a))"
  unfolding votes_des_votants_def
  by (rule construire_dict_distinct) (rule cles_distinctes [OF assms])

lemma valeurs_map_filter:
  "set (map snd (List.map_filter
       (\<lambda>p. if fonction p = ''Votant'' then map_option (\<lambda>v. (pseudo p, v)) (vote p) else None) xs))
   = set (List.map_filter (\<lambda>p. if fonction p = ''Votant'' then vote p else None) xs)"
  by (induction xs) (auto simp: List.map_filter_simps split: option.splits)

text \<open>
  Claim C8. In a round whose active feature votes by unanimity and where a voter has
  voted, \<open>valider_vote\<close> returns whether the distinct vote values of the voters are
  exactly one, and stores that in \<open>fonctionnalite_approuvee\<close>. The pseudos of the roster
  are distinct, as join keeps them, and the identifier of the feature is not 0.
\<close>

theorem unanimite_ssi_un_seul_vote:
  assumes "id_fonctionnalite (state a) = Some fid" and "fid \<noteq> 0"
    and "map_option mode_de_vote (get_fonctionnalite fid a) = Some ''unanimite''"
    and "distinct (map pseudo (participants (state a)))"
    and "valeurs_des_votants a \<noteq> {}"
  shows "fst (valider_vote c a) = Inr (card (valeurs_des_votants a) = 1)
       \<and> fonctionnalite_approuvee (indicateurs (state (snd (valider_vote c a))))
           = (card (valeurs_des_votants a) = 1)"
proof -
  note vd = votes_des_votants_distinct [OF assms(4)]
  have s: "set (map snd (votes_des_votants a)) = valeurs_des_votants a"
    unfolding vd valeurs_des_votants_def by (rule valeurs_map_filter)
  with assms(5) have ne: "votes_des_votants a \<noteq> []" by auto
  have l: "length (remdups (map snd (votes_des_votants a))) = card (valeurs_des_votants a)"
    using s by (simp add: length_remdups_card_conv)
  from assms(3) obtain f where "List.find (\<lambda>f. id_f f = fid) (backlog a) = Some f"
    and "mode_de_vote f = ''unanimite''"
    by (auto simp: get_fonctionnalite_def)
  with assms(1,2) ne show ?thesis
    by (simp add: valider_vote_def approuver_def l)
qed

theorem unanimite_ssi_un_seul_vote_witness:
  "id_fonctionnalite (state (salle ''unanimite'' (Chaine ''5'') (Chaine ''5''))) = Some 1
   \<and> (1::int) \<noteq> 0
   \<and> map_option mode_de_vote
       (get_fonctionnalite 1 (salle ''unanimite'' (Chaine ''5'') (Chaine ''5'')))
       = Some ''unanimite''
   \<and> distinct (map pseudo (participants (state (salle ''unanimite'' (Chaine ''5'') (Chaine ''5'')))))
   \<and> valeurs_des_votants (salle ''unanimite'' (Chaine ''5'') (Chaine ''5'')) \<noteq> {}
   \<and> fst (valider_vote constantes_exemple (salle ''unanimite'' (Chaine ''5'') (Chaine ''5'')))
       = Inr True
   \<and> fonctionnalite_approuvee (indicateurs (state (snd (valider_vote constantes_exemple
       (salle ''unanimite'' (Chaine ''5'') (Chaine ''5''))))))"
proof -
  let ?s = "salle ''unanimite'' (Chaine ''5'') (Chaine ''5'')"
  have h1: "id_fonctionnalite (state ?s) = Some 1" by code_simp
  have h2: "(1::int) \<noteq> 0" by simp
  have h3: "map_option mode_de_vote (get_fonctionnalite 1 ?s) = Some ''unanimite''"
    by code_simp
  have h4: "distinct (map pseudo (participants (state ?s)))" by code_simp
  have h5: "valeurs_des_votants ?s \<noteq> {}" by code_simp
  have v: "card (valeurs_des_votants ?s) = 1" by code_simp
  from unanimite_ssi_un_seul_vote [OF h1 h2 h3 h4 h5, of constantes_exemple] v
  have "fst (valider_vote constantes_exemple ?s) = Inr True"
    and "fonctionnalite_approuvee (indicateurs (state (snd (valider_vote constantes_exemple ?s))))"
    by simp_all
  with h1 h2 h3 h4 h5 show ?thesis by blast
qed

text \<open>Two different votes under unanimity: not approved.\<close>

lemma unanimite_deux_votes:
  "fst (valider_vote constantes_exemple (salle ''unanimite'' (Chaine ''5'') (Chaine ''8'')))
     = Inr False"
  by code_simp

text \<open>
  Without the name \<open>statistics\<close> in the module, a round in median mode with a vote cast
  raises \<open>NameError\<close> and leaves the manager as it was.
\<close>

lemma mediane_sans_statistics:
  assumes "\<not> exporte_statistics c"
    and "id_fonctionnalite (state a) = Some fid" and "fid \<noteq> 0"
    and "map_option mode_de_vote (get_fonctionnalite fid a) = Some ''mediane''"
    and "votes_des_votants a \<noteq> []"
  shows "valider_vote c a = (Inl (NameError ''statistics''), a)"
proof -
  from assms(4) obtain f where "List.find (\<lambda>f. id_f f = fid) (backlog a) = Some f"
    and "mode_de_vote f = ''mediane''"
    by (auto simp: get_fonctionnalite_def)
  with assms(1,2,3,5) show ?thesis
    by (simp add: valider_vote_def)
qed

text \<open>
  Claim C2 at a round in median mode where hugo voted 5 and lina 8: the call raises
  \<open>NameError\<close> and \<open>fonctionnalite_approuvee\<close> is not set, where the claim has the call
  return whether the median 13/2 reaches the threshold 4.
\<close>

theorem valider_vote_mediane_leve:
  "map_option mode_de_vote (get_fonctionnalite 1 (salle ''mediane'' (Chaine ''5'') (Chaine ''8'')))
     = Some ''mediane''
   \<and> votes_des_votants (salle ''mediane'' (Chaine ''5'') (Chaine ''8''))
       = [(''hugo'', Chaine ''5''), (''lina'', Chaine ''8'')]
   \<and> mediane [5, 8] = Inr (13 / 2)
   \<and> valider_vote constantes_exemple (salle ''mediane'' (Chaine ''5'') (Chaine ''8''))
       = (Inl (NameError ''statistics''), salle ''mediane'' (Chaine ''5'') (Chaine ''8''))"
  by code_simp

end
